theory Spec2Isabelle
  imports Main "HOL-Library.Word" "HOL-Library.Disjoint_Sets"
begin

section \<open>UserSettings.h: the typed configuration\<close>

text \<open>
  \<^verbatim>\<open>struct wifiData { String ssid; String pwd; };\<close>
\<close>

record wifiData =
  ssid :: string
  pwd :: string

text \<open>
  The array \<^verbatim>\<open>wifiData ssid_pwd [] = { "SSID_1", "PWD_1", };\<close> is initialised from a
  flat list of string literals: C++ brace elision gives the strings to the members of
  consecutive structs, \<open>ssid\<close> first. A struct left without its second string has its
  \<open>pwd\<close> value-initialised, which for \<open>String\<close> is the empty string.
\<close>

fun wifiData_array :: "string list \<Rightarrow> wifiData list" where
  "wifiData_array [] = []"
| "wifiData_array [s] = [\<lparr>ssid = s, pwd = ''''\<rparr>]"
| "wifiData_array (s # p # rest) = \<lparr>ssid = s, pwd = p\<rparr> # wifiData_array rest"

text \<open>
  The colour names are constants of the TFT\_eSPI library; the header only names them.
\<close>

datatype tft_color = TFT_CYAN | TFT_YELLOW | TFT_WHITE | TFT_BLUE | TFT_GREEN | TFT_RED

text \<open>
  Every constant and variable that UserSettings.h defines and the user is told to edit,
  under the name the header gives it. Integer literals are \<open>int\<close>, as the
  preprocessor and the compiler read them.
\<close>

record user_settings =
  ssid_pwd :: "wifiData list"
  timeZones :: "string list"
  TZ_INTERVAL :: int
  TITLE :: string
  BAUDRATE :: int
  SCREEN_ORIENTATION :: int
  LOCAL_FORMAT_12HR :: bool
  UTC_FORMAT_12HR :: bool
  DISPLAY_AMPM :: bool
  HOUR_LEADING_ZERO :: bool
  DATE_LEADING_ZERO :: bool
  DATE_ABOVE_MONTH :: bool
  PRINTED_TIME :: int
  TIMECOLOR :: tft_color
  DATECOLOR :: tft_color
  LABEL_FGCOLOR :: tft_color
  LABEL_BGCOLOR :: tft_color
  COLOR_NORMAL :: tft_color
  COLOR_MEDIUM :: tft_color
  COLOR_HIGH :: tft_color
  MEDIUM_K :: int
  HIGH_K :: int
  MEDIUM_A :: int
  HIGH_A :: int
  MEDIUM_SFI :: int
  HIGH_SFI :: int
  SHOW_SFI :: int
  SHOW_GMF :: int
  SHOW_S2N :: int
  SHOW_AUR :: int
  SHOW_SSN :: int
  DATA_ITEMS :: int
  CYCLE_TIME :: int

text \<open>The header as it is in the repository.\<close>

definition UserSettings :: user_settings where
  "UserSettings = \<lparr>
     ssid_pwd = wifiData_array [''SSID_1'', ''PWD_1''],
     timeZones = [''EST5EDT,M3.2.0/2:00:00,M11.1.0/2:00:00'',
                  ''AEST-10AEDT,M10.1.0/2:00:00,M4.1.0/2:00:00''],
     TZ_INTERVAL = 5,
     TITLE = ''NTP CLOCK'',
     BAUDRATE = 115200,
     SCREEN_ORIENTATION = 3,
     LOCAL_FORMAT_12HR = True,
     UTC_FORMAT_12HR = False,
     DISPLAY_AMPM = True,
     HOUR_LEADING_ZERO = False,
     DATE_LEADING_ZERO = True,
     DATE_ABOVE_MONTH = False,
     PRINTED_TIME = 1,
     TIMECOLOR = TFT_CYAN,
     DATECOLOR = TFT_YELLOW,
     LABEL_FGCOLOR = TFT_WHITE,
     LABEL_BGCOLOR = TFT_BLUE,
     COLOR_NORMAL = TFT_GREEN,
     COLOR_MEDIUM = TFT_YELLOW,
     COLOR_HIGH = TFT_RED,
     MEDIUM_K = 4,
     HIGH_K = 5,
     MEDIUM_A = 20,
     HIGH_A = 30,
     MEDIUM_SFI = 175,
     HIGH_SFI = 200,
     SHOW_SFI = 1,
     SHOW_GMF = 2,
     SHOW_S2N = 3,
     SHOW_AUR = 4,
     SHOW_SSN = 5,
     DATA_ITEMS = 5,
     CYCLE_TIME = 2 \<rparr>"

subsection \<open>The ELEMENTS macro and tzCount\<close>

text \<open>
  \<^verbatim>\<open>#define ELEMENTS(x) ( sizeof ( x ) / sizeof ( x[0] ))\<close>

  An array of \<open>n\<close> elements occupies \<open>n\<close> times the size of one element, and
  \<open>sizeof ( x[0] )\<close> is the size of one element. The macro divides: a divisor of zero is
  an error of the division, not the value 0.
\<close>

datatype error = DivisionByZero | InitializerTooLong

definition sizeof_array :: "nat \<Rightarrow> 'a list \<Rightarrow> nat" where
  "sizeof_array elem_size x = length x * elem_size"

definition ELEMENTS :: "nat \<Rightarrow> 'a list \<Rightarrow> error + nat" where
  "ELEMENTS elem_size x =
     (if elem_size = 0 then Inl DivisionByZero
      else Inr (sizeof_array elem_size x div elem_size))"

text \<open>
  \<^verbatim>\<open>char timeZones[][50]\<close>: each entry is a slot of 50 characters, which holds the
  string and its terminating NUL.
\<close>

definition timeZone_slot :: nat where
  "timeZone_slot = 50"

definition fits_slot :: "string \<Rightarrow> bool" where
  "fits_slot s = (length s + 1 \<le> timeZone_slot)"

text \<open>
  \<^verbatim>\<open>uint8_t tzCount = ELEMENTS ( timeZones );\<close>: the count is converted to 8 bits.
\<close>

definition tzCount_init :: "user_settings \<Rightarrow> error + 8 word" where
  "tzCount_init cfg =
     (case ELEMENTS timeZone_slot (timeZones cfg) of
        Inl e \<Rightarrow> Inl e
      | Inr n \<Rightarrow> Inr (word_of_nat n))"



subsection \<open>What the comments ask of the user\<close>

definition priorities :: "user_settings \<Rightarrow> int list" where
  "priorities cfg = [SHOW_SFI cfg, SHOW_GMF cfg, SHOW_S2N cfg, SHOW_AUR cfg, SHOW_SSN cfg]"

definition active_items :: "user_settings \<Rightarrow> int list" where
  "active_items cfg = filter (\<lambda>p. p \<noteq> 0) (priorities cfg)"



text \<open>
  The colouring code is in the firmware, outside these files. The comments beside the
  thresholds name the bands: ``Below any threshold'' is normal, ``Above 4 it's yellow''
  is medium, ``Above 5, red'' is high.
\<close>

definition color_bands :: "int \<Rightarrow> int \<Rightarrow> int set set" where
  "color_bands medium high = {{..medium}, {medium<..high}, {high<..}}"

section \<open>The four headers as the preprocessor reads them\<close>

text \<open>
  A header is the list of its directives and declarations, in the order of the file; the
  text that replaces a macro, a type and an initialiser are lists of tokens. Identifiers
  are the tokens through which one file could name what another defines.
\<close>

datatype token = Ident string | Num int | Str string | Punct string

datatype entry =
    Include string
  | Macro string "token list"
  | MacroFn string "string list" "token list"
  | Struct string "(string \<times> string) list"
  | Var "token list" string "token list"

type_synonym header = "entry list"

fun idents :: "token list \<Rightarrow> string list" where
  "idents [] = []"
| "idents (Ident n # ts) = n # idents ts"
| "idents (t # ts) = idents ts"

text \<open>
  The names an entry defines: a macro, a struct with its members \<open>(type, member)\<close>, a
  variable.
\<close>

fun names_defined :: "entry \<Rightarrow> string list" where
  "names_defined (Include f) = []"
| "names_defined (Macro n ts) = [n]"
| "names_defined (MacroFn n ps ts) = [n]"
| "names_defined (Struct n ms) = n # map snd ms"
| "names_defined (Var ty n init) = [n]"

text \<open>
  The identifiers an entry uses: those of a macro's replacement (a function-like macro's
  parameters are its own), the types of a struct's members, the type and the initialiser
  of a variable.
\<close>

fun names_used :: "entry \<Rightarrow> string list" where
  "names_used (Include f) = []"
| "names_used (Macro n ts) = idents ts"
| "names_used (MacroFn n ps ts) = filter (\<lambda>i. i \<notin> set ps) (idents ts)"
| "names_used (Struct n ms) = map fst ms"
| "names_used (Var ty n init) = idents ty @ idents init"

fun files_included :: "entry \<Rightarrow> string list" where
  "files_included (Include f) = [f]"
| "files_included e = []"

definition defined_names :: "header \<Rightarrow> string list" where
  "defined_names h = concat (map names_defined h)"

definition used_names :: "header \<Rightarrow> string list" where
  "used_names h = concat (map names_used h)"

definition included_files :: "header \<Rightarrow> string list" where
  "included_files h = concat (map files_included h)"

text \<open>The replacement of an object-like macro, if the header defines it.\<close>

fun macro :: "header \<Rightarrow> string \<Rightarrow> token list option" where
  "macro [] n = None"
| "macro (Macro m ts # h) n = (if m = n then Some ts else macro h n)"
| "macro (e # h) n = macro h n"

text \<open>The entry that defines a name, in a list of entries read in order.\<close>

fun definition_of :: "header \<Rightarrow> string \<Rightarrow> entry option" where
  "definition_of [] n = None"
| "definition_of (e # h) n = (if n \<in> set (names_defined e) then Some e else definition_of h n)"

text \<open>
  What a header means inside a translation unit \<open>env\<close>: each of its entries, with the
  definition that \<open>env\<close> gives to every identifier the entry uses.
\<close>

definition embedded :: "header \<Rightarrow> header \<Rightarrow> (entry \<times> entry option list) list" where
  "embedded env h = map (\<lambda>e. (e, map (definition_of env) (names_used e))) h"

subsection \<open>UserSettings.h\<close>

definition UserSettings_h_text :: header where
  "UserSettings_h_text =
   [ Macro ''_USER_SETTINGS_H_'' [],
     MacroFn ''ELEMENTS'' [''x'']
       [Punct ''('', Ident ''sizeof'', Punct ''('', Ident ''x'', Punct '')'', Punct ''/'',
        Ident ''sizeof'', Punct ''('', Ident ''x'', Punct ''['', Num 0, Punct '']'',
        Punct '')'', Punct '')''],
     Struct ''wifiData'' [(''String'', ''ssid''), (''String'', ''pwd'')],
     Var [Ident ''wifiData'', Punct ''['', Punct '']''] ''ssid_pwd''
       [Str ''SSID_1'', Punct '','', Str ''PWD_1'', Punct '',''],
     Var [Ident ''char'', Punct ''['', Punct '']'', Punct ''['', Num 50, Punct '']'']
       ''timeZones''
       [Str ''EST5EDT,M3.2.0/2:00:00,M11.1.0/2:00:00'', Punct '','',
        Str ''AEST-10AEDT,M10.1.0/2:00:00,M4.1.0/2:00:00''],
     Var [Ident ''uint8_t''] ''tzCount''
       [Ident ''ELEMENTS'', Punct ''('', Ident ''timeZones'', Punct '')''],
     Macro ''TZ_INTERVAL'' [Num 5],
     Macro ''TITLE'' [Str ''NTP CLOCK''],
     Macro ''BAUDRATE'' [Num 115200],
     Macro ''SCREEN_ORIENTATION'' [Num 3],
     Macro ''LOCAL_FORMAT_12HR'' [Ident ''true''],
     Macro ''UTC_FORMAT_12HR'' [Ident ''false''],
     Macro ''DISPLAY_AMPM'' [Ident ''true''],
     Macro ''HOUR_LEADING_ZERO'' [Ident ''false''],
     Macro ''DATE_LEADING_ZERO'' [Ident ''true''],
     Macro ''DATE_ABOVE_MONTH'' [Ident ''false''],
     Macro ''PRINTED_TIME'' [Num 1],
     Macro ''TIMECOLOR'' [Ident ''TFT_CYAN''],
     Macro ''DATECOLOR'' [Ident ''TFT_YELLOW''],
     Macro ''LABEL_FGCOLOR'' [Ident ''TFT_WHITE''],
     Macro ''LABEL_BGCOLOR'' [Ident ''TFT_BLUE''],
     Macro ''COLOR_NORMAL'' [Ident ''TFT_GREEN''],
     Macro ''COLOR_MEDIUM'' [Ident ''TFT_YELLOW''],
     Macro ''COLOR_HIGH'' [Ident ''TFT_RED''],
     Macro ''MEDIUM_K'' [Num 4],
     Macro ''HIGH_K'' [Num 5],
     Macro ''MEDIUM_A'' [Num 20],
     Macro ''HIGH_A'' [Num 30],
     Macro ''MEDIUM_SFI'' [Num 175],
     Macro ''HIGH_SFI'' [Num 200],
     Macro ''SHOW_SFI'' [Num 1],
     Macro ''SHOW_GMF'' [Num 2],
     Macro ''SHOW_S2N'' [Num 3],
     Macro ''SHOW_AUR'' [Num 4],
     Macro ''SHOW_SSN'' [Num 5],
     Macro ''DATA_ITEMS'' [Num 5],
     Macro ''CYCLE_TIME'' [Num 2] ]"

subsection \<open>The TFT\_eSPI setup files\<close>

definition ESP32_NTP_Clock_Setup_h :: header where
  "ESP32_NTP_Clock_Setup_h =
   [ Macro ''ILI9341_DRIVER'' [],
     Macro ''TFT_MOSI'' [Num 23],
     Macro ''TFT_SCLK'' [Num 18],
     Macro ''TFT_CS'' [Num 5],
     Macro ''TFT_DC'' [Num 2],
     Macro ''TFT_RST'' [Num 15],
     Macro ''LOAD_GLCD'' [],
     Macro ''LOAD_FONT2'' [],
     Macro ''LOAD_FONT4'' [],
     Macro ''LOAD_FONT6'' [],
     Macro ''LOAD_FONT7'' [],
     Macro ''LOAD_FONT8'' [],
     Macro ''LOAD_GFXFF'' [],
     Macro ''SMOOTH_FONT'' [],
     Macro ''SPI_FREQUENCY'' [Num 40000000],
     Macro ''SPI_READ_FREQUENCY'' [Num 20000000],
     Macro ''SPI_TOUCH_FREQUENCY'' [Num 2500000] ]"

definition ESP8266_Generic_Setup_h :: header where
  "ESP8266_Generic_Setup_h =
   [ Macro ''ILI9341_DRIVER'' [],
     Macro ''TFT_MOSI'' [Ident ''PIN_D7''],
     Macro ''TFT_SCLK'' [Ident ''PIN_D5''],
     Macro ''TFT_CS'' [Ident ''PIN_D8''],
     Macro ''TFT_DC'' [Ident ''PIN_D3''],
     Macro ''TFT_RST'' [Punct ''-'', Num 1],
     Macro ''LOAD_GLCD'' [],
     Macro ''LOAD_FONT2'' [],
     Macro ''LOAD_FONT4'' [],
     Macro ''LOAD_FONT6'' [],
     Macro ''LOAD_FONT7'' [],
     Macro ''LOAD_FONT8'' [],
     Macro ''LOAD_GFXFF'' [],
     Macro ''SMOOTH_FONT'' [],
     Macro ''SPI_FREQUENCY'' [Num 40000000],
     Macro ''SPI_READ_FREQUENCY'' [Num 20000000],
     Macro ''SPI_TOUCH_FREQUENCY'' [Num 2500000] ]"

definition ESP32_Cheap_Yellow_Display_h :: header where
  "ESP32_Cheap_Yellow_Display_h =
   [ Macro ''ILI9341_DRIVER'' [],
     Macro ''TFT_BL'' [Num 21],
     Macro ''TFT_BACKLIGHT_ON'' [Ident ''HIGH''],
     Macro ''TFT_MISO'' [Num 12],
     Macro ''TFT_MOSI'' [Num 13],
     Macro ''TFT_SCLK'' [Num 14],
     Macro ''TFT_CS'' [Num 15],
     Macro ''TFT_DC'' [Num 2],
     Macro ''TFT_RST'' [Punct ''-'', Num 1],
     Macro ''LOAD_GLCD'' [],
     Macro ''LOAD_FONT2'' [],
     Macro ''LOAD_FONT4'' [],
     Macro ''LOAD_FONT6'' [],
     Macro ''LOAD_FONT7'' [],
     Macro ''LOAD_FONT8'' [],
     Macro ''LOAD_GFXFF'' [],
     Macro ''SMOOTH_FONT'' [],
     Macro ''SPI_FREQUENCY'' [Num 40000000],
     Macro ''SPI_READ_FREQUENCY'' [Num 20000000],
     Macro ''SPI_TOUCH_FREQUENCY'' [Num 2500000],
     Macro ''USE_HSPI_PORT'' [] ]"

definition setup_files :: "header list" where
  "setup_files =
     [ESP32_Cheap_Yellow_Display_h, ESP32_NTP_Clock_Setup_h, ESP8266_Generic_Setup_h]"

definition headers :: "header list" where
  "headers = UserSettings_h_text # setup_files"

definition font_names :: "string list" where
  "font_names = [''LOAD_GLCD'', ''LOAD_FONT2'', ''LOAD_FONT4'', ''LOAD_FONT6'',
     ''LOAD_FONT7'', ''LOAD_FONT8'', ''LOAD_GFXFF'', ''SMOOTH_FONT'']"

definition frequency_names :: "string list" where
  "frequency_names = [''SPI_FREQUENCY'', ''SPI_READ_FREQUENCY'', ''SPI_TOUCH_FREQUENCY'']"

definition pin_names :: "string list" where
  "pin_names = [''TFT_MISO'', ''TFT_MOSI'', ''TFT_SCLK'', ''TFT_CS'', ''TFT_DC'', ''TFT_RST'']"

definition backlight_hspi_names :: "string list" where
  "backlight_hspi_names = [''TFT_BL'', ''TFT_BACKLIGHT_ON'', ''USE_HSPI_PORT'']"

text \<open>A header without the entries that define one of the given names.\<close>

definition without :: "string list \<Rightarrow> header \<Rightarrow> header" where
  "without ns h = filter (\<lambda>e. set (names_defined e) \<inter> set ns = {}) h"

section \<open>Properties of the shipped configuration\<close>

subsection \<open>Reading the shipped values\<close>

lemma UserSettings_priorities: "priorities UserSettings = [1, 2, 3, 4, 5]"
  by (simp add: priorities_def UserSettings_def)

lemma UserSettings_DATA_ITEMS: "DATA_ITEMS UserSettings = 5"
  by (simp add: UserSettings_def)

lemma UserSettings_ssid_pwd: "ssid_pwd UserSettings = [\<lparr>ssid = ''SSID_1'', pwd = ''PWD_1''\<rparr>]"
  by (simp add: UserSettings_def)

lemma UserSettings_timeZones:
  "timeZones UserSettings = [''EST5EDT,M3.2.0/2:00:00,M11.1.0/2:00:00'',
                  ''AEST-10AEDT,M10.1.0/2:00:00,M4.1.0/2:00:00'']"
  by (simp add: UserSettings_def)




subsection \<open>ELEMENTS and tzCount\<close>

text \<open>
  The size of an object type is never zero in C++, so the division of ELEMENTS is defined
  for every array, and gives the number of its elements.
\<close>

lemma ELEMENTS_count: "0 < elem_size \<Longrightarrow> ELEMENTS elem_size x = Inr (length x)"
  by (simp add: ELEMENTS_def sizeof_array_def)

lemma tzCount_init_eq: "tzCount_init cfg = Inr (word_of_nat (length (timeZones cfg)))"
  by (simp add: tzCount_init_def timeZone_slot_def ELEMENTS_count)

text \<open>
  The conversion to \<open>uint8_t\<close> keeps the count of a list of fewer than 256 time zones.
\<close>

lemma tzCount_init_small:
  assumes "length (timeZones cfg) < 256"
  shows "map_sum id unat (tzCount_init cfg) = Inr (length (timeZones cfg))"
  using assms by (simp add: tzCount_init_eq unat_of_nat)

subsection \<open>The colour bands\<close>

lemma color_bands_partition:
  assumes "medium < high"
  shows "partition_on UNIV (color_bands medium high)"
proof (rule partition_onI)
  show "\<Union> (color_bands medium high) = UNIV"
    by (auto simp: color_bands_def)
next
  fix p q
  assume "p \<in> color_bands medium high" "q \<in> color_bands medium high" "p \<noteq> q"
  then show "disjnt p q"
    using assms by (auto simp: color_bands_def disjnt_def)
next
  have "medium \<in> {..medium}" "high \<in> {medium<..high}" "high + 1 \<in> {high<..}"
    using assms by auto
  then have "{} \<noteq> {..medium}" "{} \<noteq> {medium<..high}" "{} \<noteq> {high<..}"
    by blast+
  then show "{} \<notin> color_bands medium high"
    by (simp add: color_bands_def)
qed

subsection \<open>The text of the headers\<close>

lemma defined_UserSettings:
  "defined_names UserSettings_h_text =
    [''_USER_SETTINGS_H_'', ''ELEMENTS'', ''wifiData'', ''ssid'', ''pwd'', ''ssid_pwd'',
     ''timeZones'', ''tzCount'', ''TZ_INTERVAL'', ''TITLE'', ''BAUDRATE'',
     ''SCREEN_ORIENTATION'', ''LOCAL_FORMAT_12HR'', ''UTC_FORMAT_12HR'', ''DISPLAY_AMPM'',
     ''HOUR_LEADING_ZERO'', ''DATE_LEADING_ZERO'', ''DATE_ABOVE_MONTH'', ''PRINTED_TIME'',
     ''TIMECOLOR'', ''DATECOLOR'', ''LABEL_FGCOLOR'', ''LABEL_BGCOLOR'', ''COLOR_NORMAL'',
     ''COLOR_MEDIUM'', ''COLOR_HIGH'', ''MEDIUM_K'', ''HIGH_K'', ''MEDIUM_A'', ''HIGH_A'',
     ''MEDIUM_SFI'', ''HIGH_SFI'', ''SHOW_SFI'', ''SHOW_GMF'', ''SHOW_S2N'', ''SHOW_AUR'',
     ''SHOW_SSN'', ''DATA_ITEMS'', ''CYCLE_TIME'']"
  by (simp add: defined_names_def UserSettings_h_text_def)

lemma used_UserSettings:
  "used_names UserSettings_h_text =
    [''sizeof'', ''sizeof'', ''String'', ''String'', ''wifiData'', ''char'',
     ''uint8_t'', ''ELEMENTS'', ''timeZones'', ''true'', ''false'', ''true'',
     ''false'', ''true'', ''false'', ''TFT_CYAN'', ''TFT_YELLOW'',
     ''TFT_WHITE'', ''TFT_BLUE'', ''TFT_GREEN'', ''TFT_YELLOW'', ''TFT_RED'']"
  by (simp add: used_names_def UserSettings_h_text_def)

lemma defined_ESP32:
  "defined_names ESP32_NTP_Clock_Setup_h =
    [''ILI9341_DRIVER'', ''TFT_MOSI'', ''TFT_SCLK'', ''TFT_CS'', ''TFT_DC'',
     ''TFT_RST'', ''LOAD_GLCD'', ''LOAD_FONT2'', ''LOAD_FONT4'',
     ''LOAD_FONT6'', ''LOAD_FONT7'', ''LOAD_FONT8'', ''LOAD_GFXFF'',
     ''SMOOTH_FONT'', ''SPI_FREQUENCY'', ''SPI_READ_FREQUENCY'',
     ''SPI_TOUCH_FREQUENCY'']"
  by (simp add: defined_names_def ESP32_NTP_Clock_Setup_h_def)

lemma used_ESP32: "used_names ESP32_NTP_Clock_Setup_h = []"
  by (simp add: used_names_def ESP32_NTP_Clock_Setup_h_def)

lemma defined_ESP8266:
  "defined_names ESP8266_Generic_Setup_h = defined_names ESP32_NTP_Clock_Setup_h"
  by (simp add: defined_names_def ESP8266_Generic_Setup_h_def ESP32_NTP_Clock_Setup_h_def)

lemma used_ESP8266:
  "used_names ESP8266_Generic_Setup_h = [''PIN_D7'', ''PIN_D5'', ''PIN_D8'', ''PIN_D3'']"
  by (simp add: used_names_def ESP8266_Generic_Setup_h_def)

lemma defined_CYD:
  "defined_names ESP32_Cheap_Yellow_Display_h =
    [''ILI9341_DRIVER'', ''TFT_BL'', ''TFT_BACKLIGHT_ON'', ''TFT_MISO'',
     ''TFT_MOSI'', ''TFT_SCLK'', ''TFT_CS'', ''TFT_DC'', ''TFT_RST'',
     ''LOAD_GLCD'', ''LOAD_FONT2'', ''LOAD_FONT4'', ''LOAD_FONT6'',
     ''LOAD_FONT7'', ''LOAD_FONT8'', ''LOAD_GFXFF'', ''SMOOTH_FONT'',
     ''SPI_FREQUENCY'', ''SPI_READ_FREQUENCY'', ''SPI_TOUCH_FREQUENCY'',
     ''USE_HSPI_PORT'']"
  by (simp add: defined_names_def ESP32_Cheap_Yellow_Display_h_def)

lemma used_CYD: "used_names ESP32_Cheap_Yellow_Display_h = [''HIGH'']"
  by (simp add: used_names_def ESP32_Cheap_Yellow_Display_h_def)


lemma included_files_headers:
  "included_files UserSettings_h_text = []"
  "included_files ESP32_Cheap_Yellow_Display_h = []"
  "included_files ESP32_NTP_Clock_Setup_h = []"
  "included_files ESP8266_Generic_Setup_h = []"
  by (simp_all add: included_files_def UserSettings_h_text_def ESP32_Cheap_Yellow_Display_h_def
      ESP32_NTP_Clock_Setup_h_def ESP8266_Generic_Setup_h_def)

lemma headers_cases:
  assumes "h \<in> set headers"
  obtains (1) "h = UserSettings_h_text" | (2) "h = ESP32_Cheap_Yellow_Display_h"
    | (3) "h = ESP32_NTP_Clock_Setup_h" | (4) "h = ESP8266_Generic_Setup_h"
  using assms by (auto simp: headers_def setup_files_def)

lemma no_include: "h \<in> set headers \<Longrightarrow> included_files h = []"
  by (erule headers_cases) (simp_all add: included_files_headers)

lemma used_not_defined_elsewhere:
  assumes "h \<in> set headers" and "other \<in> set headers" and "other \<noteq> h"
  shows "set (defined_names other) \<inter> set (used_names h) = {}"
proof -
  from assms(2) have other:
    "other = UserSettings_h_text \<or> other = ESP32_Cheap_Yellow_Display_h
      \<or> other = ESP32_NTP_Clock_Setup_h \<or> other = ESP8266_Generic_Setup_h"
    by (auto simp: headers_def setup_files_def)
  from assms(1) show ?thesis
  proof (cases rule: headers_cases)
    case 1
    from other assms(3) show ?thesis
      unfolding 1 used_UserSettings
      by (elim disjE) (simp_all add: defined_CYD defined_ESP32 defined_ESP8266)
  next
    case 2
    from other assms(3) show ?thesis
      unfolding 2 used_CYD
      by (elim disjE) (simp_all add: defined_UserSettings defined_ESP32 defined_ESP8266)
  next
    case 3
    show ?thesis unfolding 3 used_ESP32 by simp
  next
    case 4
    from other assms(3) show ?thesis
      unfolding 4 used_ESP8266
      by (elim disjE) (simp_all add: defined_UserSettings defined_ESP32 defined_CYD)
  qed
qed

lemma definition_of_None: "n \<notin> set (defined_names env) \<Longrightarrow> definition_of env n = None"
  by (induction env) (auto simp: defined_names_def)

lemma definition_of_append:
  "definition_of (env1 @ env2) n =
     (case definition_of env1 n of Some e \<Rightarrow> Some e | None \<Rightarrow> definition_of env2 n)"
  by (induction env1) auto

lemma names_used_subset: "e \<in> set h \<Longrightarrow> set (names_used e) \<subseteq> set (used_names h)"
  by (auto simp: used_names_def)

lemma embedded_alone:
  assumes "set (defined_names env) \<inter> set (used_names h) = {}"
  shows "embedded (env @ h) h = embedded h h" and "embedded (h @ env) h = embedded h h"
proof -
  have none: "definition_of env n = None" if "e \<in> set h" "n \<in> set (names_used e)" for e n
  proof -
    from that have "n \<in> set (used_names h)" using names_used_subset by blast
    with assms have "n \<notin> set (defined_names env)" by blast
    then show ?thesis by (rule definition_of_None)
  qed
  show "embedded (env @ h) h = embedded h h"
    unfolding embedded_def by (auto simp: definition_of_append none)
  show "embedded (h @ env) h = embedded h h"
    unfolding embedded_def by (auto simp: definition_of_append none split: option.splits)
qed

text \<open>
  The typed configuration and the text of UserSettings.h give the integer constants the
  same values.
\<close>

lemma UserSettings_text_agrees:
  "map (macro UserSettings_h_text)
     [''SHOW_SFI'', ''SHOW_GMF'', ''SHOW_S2N'', ''SHOW_AUR'', ''SHOW_SSN'', ''DATA_ITEMS'',
      ''CYCLE_TIME'', ''TZ_INTERVAL'', ''MEDIUM_K'', ''HIGH_K'', ''MEDIUM_A'', ''HIGH_A'',
      ''MEDIUM_SFI'', ''HIGH_SFI'']
   = map (\<lambda>v. Some [Num v])
     (priorities UserSettings @
      map (\<lambda>f. f UserSettings)
        [DATA_ITEMS, CYCLE_TIME, TZ_INTERVAL, MEDIUM_K, HIGH_K, MEDIUM_A, HIGH_A,
         MEDIUM_SFI, HIGH_SFI])"
  unfolding UserSettings_priorities
  by (simp add: UserSettings_h_text_def UserSettings_def)

section \<open>The claims\<close>

text \<open>
  C1. The five priorities SHOW\_SFI, SHOW\_GMF, SHOW\_S2N, SHOW\_AUR, SHOW\_SSN are 1, 2, 3,
  4, 5: as a set they are exactly the integers from 1 to 5. DATA\_ITEMS is 5, the greatest
  priority and the number of nonzero priorities.
\<close>

theorem display_priorities_dense:
  "priorities UserSettings = [1, 2, 3, 4, 5]
   \<and> set (priorities UserSettings) = {1 .. 5}
   \<and> DATA_ITEMS UserSettings = 5
   \<and> DATA_ITEMS UserSettings = Max (set (priorities UserSettings))
   \<and> DATA_ITEMS UserSettings = int (length (active_items UserSettings))"
proof -
  have s: "set (priorities UserSettings) = {1 .. 5}"
    unfolding UserSettings_priorities by (auto simp: atLeastAtMost_def)
  have m: "Max (set (priorities UserSettings)) = 5"
    unfolding UserSettings_priorities by simp
  have a: "length (active_items UserSettings) = 5"
    unfolding active_items_def UserSettings_priorities by simp
  show ?thesis
    using s m a UserSettings_priorities UserSettings_DATA_ITEMS by simp
qed

text \<open>
  C2. The array ssid\_pwd of the shipped header is the one complete pair
  (``SSID\_1'', ``PWD\_1''): whatever the (nonzero) size of a wifiData, ELEMENTS(ssid\_pwd)
  is 1, so at least 1, and no element has an empty ssid or an empty pwd.
\<close>

theorem wifi_list_complete:
  assumes "0 < sizeof_wifiData"
  shows "ssid_pwd UserSettings = [\<lparr>ssid = ''SSID_1'', pwd = ''PWD_1''\<rparr>]
   \<and> ELEMENTS sizeof_wifiData (ssid_pwd UserSettings) = Inr 1
   \<and> filter (\<lambda>w. ssid w = [] \<or> pwd w = []) (ssid_pwd UserSettings) = []"
  using assms by (simp add: UserSettings_ssid_pwd ELEMENTS_count)

theorem wifi_list_complete_witness:
  "(0::nat) < 24 \<and> ELEMENTS 24 (ssid_pwd UserSettings) = Inr 1
   \<and> filter (\<lambda>w. ssid w = [] \<or> pwd w = []) (ssid_pwd UserSettings) = []"
proof -
  have h: "(0::nat) < 24" by simp
  from wifi_list_complete [OF h] show ?thesis using h by blast
qed

text \<open>
  C3. The shipped list timeZones is not empty. ELEMENTS counts 2 entries in it, the US
  Eastern and the Australian Eastern rule; tzCount is initialised to that count, 2. The
  entries are 38 and 42 characters long, and each fits, with its terminating NUL, in its
  slot of 50 characters.
\<close>

theorem timeZones_count:
  "timeZones UserSettings \<noteq> []
   \<and> timeZones UserSettings = [''EST5EDT,M3.2.0/2:00:00,M11.1.0/2:00:00'',
                                ''AEST-10AEDT,M10.1.0/2:00:00,M4.1.0/2:00:00'']
   \<and> ELEMENTS timeZone_slot (timeZones UserSettings) = Inr 2
   \<and> tzCount_init UserSettings = Inr 2
   \<and> map_sum id unat (tzCount_init UserSettings)
       = ELEMENTS timeZone_slot (timeZones UserSettings)
   \<and> map length (timeZones UserSettings) = [38, 42]
   \<and> list_all fits_slot (timeZones UserSettings)"
  by (simp add: UserSettings_timeZones tzCount_init_eq ELEMENTS_count timeZone_slot_def
      fits_slot_def)




text \<open>
  C5. TZ\_INTERVAL is 5: it lies between 1 and 30, and 60 is a multiple of it.
\<close>

theorem TZ_INTERVAL_value:
  "TZ_INTERVAL UserSettings = 5
   \<and> 1 \<le> TZ_INTERVAL UserSettings \<and> TZ_INTERVAL UserSettings \<le> 30
   \<and> 60 mod TZ_INTERVAL UserSettings = 0"
  by (simp add: UserSettings_def)

text \<open>
  C6. The three setup files define the driver macro ILI9341\_DRIVER (and not
  ILI9341\_2\_DRIVER), the same eight font macros, and the same three SPI frequencies:
  40000000, 20000000 and 2500000. Without the pin assignments the two ESP32/ESP8266 files
  are the same list of definitions; the Cheap Yellow Display file is that list too once
  its backlight and HSPI definitions are also left out, and the other two files have no
  such definitions.
\<close>

theorem setup_files_agree:
  "map (\<lambda>h. macro h ''ILI9341_DRIVER'') setup_files = [Some [], Some [], Some []]
   \<and> map (\<lambda>h. macro h ''ILI9341_2_DRIVER'') setup_files = [None, None, None]
   \<and> map (\<lambda>h. map (macro h) font_names) setup_files = replicate 3 (replicate 8 (Some []))
   \<and> map (\<lambda>h. map (macro h) frequency_names) setup_files
       = replicate 3 [Some [Num 40000000], Some [Num 20000000], Some [Num 2500000]]
   \<and> without pin_names ESP32_NTP_Clock_Setup_h = without pin_names ESP8266_Generic_Setup_h
   \<and> without (pin_names @ backlight_hspi_names) ESP32_Cheap_Yellow_Display_h
       = without pin_names ESP32_NTP_Clock_Setup_h
   \<and> without backlight_hspi_names ESP32_NTP_Clock_Setup_h = ESP32_NTP_Clock_Setup_h
   \<and> without backlight_hspi_names ESP8266_Generic_Setup_h = ESP8266_Generic_Setup_h"
proof -
  have 1: "map (\<lambda>h. macro h ''ILI9341_DRIVER'') setup_files = [Some [], Some [], Some []]"
    by (simp add: setup_files_def ESP32_Cheap_Yellow_Display_h_def
        ESP32_NTP_Clock_Setup_h_def ESP8266_Generic_Setup_h_def)
  have 2: "map (\<lambda>h. macro h ''ILI9341_2_DRIVER'') setup_files = [None, None, None]"
    by (simp add: setup_files_def ESP32_Cheap_Yellow_Display_h_def
        ESP32_NTP_Clock_Setup_h_def ESP8266_Generic_Setup_h_def)
  have 3: "map (\<lambda>h. map (macro h) font_names) setup_files = replicate 3 (replicate 8 (Some []))"
    by (simp add: setup_files_def font_names_def numeral_3_eq_3 numeral_nat
        ESP32_Cheap_Yellow_Display_h_def ESP32_NTP_Clock_Setup_h_def ESP8266_Generic_Setup_h_def)
  have 4: "map (\<lambda>h. map (macro h) frequency_names) setup_files
       = replicate 3 [Some [Num 40000000], Some [Num 20000000], Some [Num 2500000]]"
    by (simp add: setup_files_def frequency_names_def numeral_3_eq_3
        ESP32_Cheap_Yellow_Display_h_def ESP32_NTP_Clock_Setup_h_def ESP8266_Generic_Setup_h_def)
  have 5: "without pin_names ESP32_NTP_Clock_Setup_h = without pin_names ESP8266_Generic_Setup_h"
    by (simp add: without_def pin_names_def ESP32_NTP_Clock_Setup_h_def ESP8266_Generic_Setup_h_def)
  have 6: "without (pin_names @ backlight_hspi_names) ESP32_Cheap_Yellow_Display_h
       = without pin_names ESP32_NTP_Clock_Setup_h"
    by (simp add: without_def pin_names_def backlight_hspi_names_def
        ESP32_NTP_Clock_Setup_h_def ESP32_Cheap_Yellow_Display_h_def)
  have 7: "without backlight_hspi_names ESP32_NTP_Clock_Setup_h = ESP32_NTP_Clock_Setup_h"
    by (simp add: without_def backlight_hspi_names_def ESP32_NTP_Clock_Setup_h_def)
  have 8: "without backlight_hspi_names ESP8266_Generic_Setup_h = ESP8266_Generic_Setup_h"
    by (simp add: without_def backlight_hspi_names_def ESP8266_Generic_Setup_h_def)
  from 1 2 3 4 5 6 7 8 show ?thesis by blast
qed

text \<open>
  C7. No header includes a file, and no name that one header defines is used in
  another. So a header embedded next to another header (read before it or after it)
  is the header embedded alone, also when the other header's definitions are changed
  or removed.
\<close>

theorem headers_independent:
  assumes "h \<in> set headers" and "other \<in> set headers" and "other \<noteq> h"
    and "set (defined_names changed) \<subseteq> set (defined_names other)"
  shows "included_files h = []
    \<and> set (defined_names other) \<inter> set (used_names h) = {}
    \<and> embedded (changed @ h) h = embedded h h
    \<and> embedded (h @ changed) h = embedded h h"
proof -
  have d: "set (defined_names other) \<inter> set (used_names h) = {}"
    using assms(1-3) by (rule used_not_defined_elsewhere)
  with assms(4) have "set (defined_names changed) \<inter> set (used_names h) = {}"
    by blast
  then have "embedded (changed @ h) h = embedded h h" "embedded (h @ changed) h = embedded h h"
    by (rule embedded_alone)+
  with d no_include [OF assms(1)] show ?thesis by simp
qed

theorem headers_independent_witness:
  "UserSettings_h_text \<in> set headers
   \<and> ESP32_NTP_Clock_Setup_h \<in> set headers
   \<and> ESP32_NTP_Clock_Setup_h \<noteq> UserSettings_h_text
   \<and> set (defined_names [Macro ''SPI_FREQUENCY'' [Num 80000000], Macro ''TFT_CS'' [Num 4]])
       \<subseteq> set (defined_names ESP32_NTP_Clock_Setup_h)
   \<and> included_files UserSettings_h_text = []
   \<and> set (defined_names ESP32_NTP_Clock_Setup_h) \<inter> set (used_names UserSettings_h_text) = {}
   \<and> embedded ([Macro ''SPI_FREQUENCY'' [Num 80000000], Macro ''TFT_CS'' [Num 4]]
         @ UserSettings_h_text) UserSettings_h_text
       = embedded UserSettings_h_text UserSettings_h_text
   \<and> embedded (UserSettings_h_text
         @ [Macro ''SPI_FREQUENCY'' [Num 80000000], Macro ''TFT_CS'' [Num 4]])
         UserSettings_h_text
       = embedded UserSettings_h_text UserSettings_h_text"
proof -
  have 1: "UserSettings_h_text \<in> set headers" and 2: "ESP32_NTP_Clock_Setup_h \<in> set headers"
    by (simp_all add: headers_def setup_files_def)
  have 3: "ESP32_NTP_Clock_Setup_h \<noteq> UserSettings_h_text"
    by (simp add: ESP32_NTP_Clock_Setup_h_def UserSettings_h_text_def)
  have 4: "set (defined_names [Macro ''SPI_FREQUENCY'' [Num 80000000], Macro ''TFT_CS'' [Num 4]])
       \<subseteq> set (defined_names ESP32_NTP_Clock_Setup_h)"
    unfolding defined_ESP32 by (simp add: defined_names_def)
  from headers_independent [OF 1 2 3 4] 1 2 3 4 show ?thesis by blast
qed

text \<open>
  C8. For each colour-coded value the medium threshold is below the high one: 4 and 5 for
  K, 20 and 30 for A, 175 and 200 for SFI. So the three bands that the thresholds cut out
  (up to medium; above medium up to high; above high) are disjoint, none is empty, and
  together they cover every value.
\<close>

theorem thresholds_ordered:
  "MEDIUM_K UserSettings = 4 \<and> HIGH_K UserSettings = 5
   \<and> MEDIUM_K UserSettings < HIGH_K UserSettings
   \<and> MEDIUM_A UserSettings = 20 \<and> HIGH_A UserSettings = 30
   \<and> MEDIUM_A UserSettings < HIGH_A UserSettings
   \<and> MEDIUM_SFI UserSettings = 175 \<and> HIGH_SFI UserSettings = 200
   \<and> MEDIUM_SFI UserSettings < HIGH_SFI UserSettings
   \<and> partition_on UNIV (color_bands (MEDIUM_K UserSettings) (HIGH_K UserSettings))
   \<and> partition_on UNIV (color_bands (MEDIUM_A UserSettings) (HIGH_A UserSettings))
   \<and> partition_on UNIV (color_bands (MEDIUM_SFI UserSettings) (HIGH_SFI UserSettings))"
proof -
  have k: "MEDIUM_K UserSettings = 4" "HIGH_K UserSettings = 5"
    and a: "MEDIUM_A UserSettings = 20" "HIGH_A UserSettings = 30"
    and s: "MEDIUM_SFI UserSettings = 175" "HIGH_SFI UserSettings = 200"
    by (simp_all add: UserSettings_def)
  show ?thesis
    unfolding k a s by (simp add: color_bands_partition)
qed

text \<open>
  C9. For an array of any element type and any (nonzero) element size, ELEMENTS is the
  number of elements of the array. In the shipped configuration ELEMENTS(timeZones) is 2
  and ELEMENTS(ssid\_pwd) is 1.
\<close>

theorem ELEMENTS_is_length:
  assumes "0 < elem_size"
  shows "ELEMENTS elem_size x = Inr (length x)
   \<and> ELEMENTS timeZone_slot (timeZones UserSettings) = Inr 2
   \<and> ELEMENTS elem_size (ssid_pwd UserSettings) = Inr 1"
  using assms by (simp add: ELEMENTS_count timeZone_slot_def UserSettings_timeZones UserSettings_ssid_pwd)

theorem ELEMENTS_is_length_witness:
  "(0::nat) < 50 \<and> ELEMENTS 50 (timeZones UserSettings) = Inr 2
     \<and> ELEMENTS 50 (ssid_pwd UserSettings) = Inr 1"
  using ELEMENTS_is_length [of 50 "timeZones UserSettings"] by (simp add: UserSettings_timeZones)

text \<open>
  C10. CYCLE\_TIME is 2: it is not zero and 60 is a multiple of it, so a minute is
  exactly 30 display periods of 2 seconds, none shortened, and the 30 periods divide
  evenly among the DATA\_ITEMS = 5 displayed items.
\<close>

theorem CYCLE_TIME_value:
  "CYCLE_TIME UserSettings = 2
   \<and> CYCLE_TIME UserSettings \<noteq> 0
   \<and> 60 mod CYCLE_TIME UserSettings = 0
   \<and> (60 div CYCLE_TIME UserSettings) * CYCLE_TIME UserSettings = 60
   \<and> (60 div CYCLE_TIME UserSettings) mod DATA_ITEMS UserSettings = 0"
  by (simp add: UserSettings_def)

end
